theory Spec2Isabelle
  imports Main
begin

section \<open>Data model of the signing service (main.go)\<close>

text \<open>
  The parsed certificate request, restricted to the fields the handler reads:
  \<^verbatim>\<open>csr.Subject.CommonName\<close>, \<^verbatim>\<open>csr.DNSNames\<close>, \<^verbatim>\<open>csr.EmailAddresses\<close>,
  \<^verbatim>\<open>csr.IPAddresses\<close> and \<^verbatim>\<open>csr.URIs\<close>. Go's \<^verbatim>\<open>net.IP\<close> and \<^verbatim>\<open>*url.URL\<close> are
  library types; they stay type parameters and their \<^verbatim>\<open>String()\<close> methods are
  parameters of the model.
\<close>

record ('ip, 'uri) CertificateRequest =
  CommonName :: string
  DNSNames :: "string list"
  EmailAddresses :: "string list"
  IPAddresses :: "'ip list"
  URIs :: "'uri list"

text \<open>
  \<^verbatim>\<open>type SignRequest struct { CsrPEM api.CertificateRequest; NotAfter api.TimeDuration }\<close>.
  \<^verbatim>\<open>api.CertificateRequest\<close> wraps a pointer to the parsed request; the nil pointer
  is \<open>None\<close>.
\<close>

record ('ip, 'uri, 'd) SignRequest =
  CsrPEM :: "('ip, 'uri) CertificateRequest option"
  NotAfter :: 'd

text \<open>The \<^verbatim>\<open>api.SignRequest\<close> literal the handler hands to \<^verbatim>\<open>provisioner.Sign\<close>.\<close>

record ('ip, 'uri, 'd) api_SignRequest =
  api_CsrPEM :: "('ip, 'uri) CertificateRequest option"
  OTT :: string
  api_NotAfter :: 'd

text \<open>
  What the handler passes to \<^verbatim>\<open>render.Error\<close>: an error built by \<^verbatim>\<open>errs.BadRequest\<close>
  or \<^verbatim>\<open>errs.BadRequestErr\<close> (the constructors of status-400 errors), or an error
  value exactly as a collaborator returned it. Collaborator errors are opaque values of
  type \<open>'e\<close>.
\<close>

datatype 'e rendered_error =
    errs_BadRequest string
  | errs_BadRequestErr 'e string
  | Returned 'e

text \<open>The part of \<^verbatim>\<open>*http.Request\<close> a handler could look at.\<close>

record Request =
  Method :: string
  Path :: string
  Header :: "(string \<times> string) list"
  Body :: string

text \<open>
  What the handler writes: \<^verbatim>\<open>http.NotFound\<close>, \<^verbatim>\<open>render.Error\<close> or
  \<^verbatim>\<open>render.JSONStatus\<close> with its status code. \<open>nil_dereference\<close> is the panic Go
  raises when the fields of a nil \<^verbatim>\<open>*x509.CertificateRequest\<close> are read.
\<close>

datatype ('e, 'r) response =
    http_NotFound
  | render_Error "'e rendered_error"
  | render_JSONStatus 'r nat
  | nil_dereference

text \<open>
  The message of an error the handler builds: the text it passes to \<^verbatim>\<open>errs.BadRequest\<close>
  or \<^verbatim>\<open>errs.BadRequestErr\<close> as format, with no further argument. An error returned
  by a collaborator brings its own message, which the handler does not choose.
\<close>

fun error_Msg :: "'e rendered_error \<Rightarrow> string option" where
  "error_Msg (errs_BadRequest msg) = Some msg"
| "error_Msg (errs_BadRequestErr err msg) = Some msg"
| "error_Msg (Returned err) = None"

fun response_Msg :: "('e, 'r) response \<Rightarrow> string option" where
  "response_Msg (render_Error err) = error_Msg err"
| "response_Msg http_NotFound = None"
| "response_Msg (render_JSONStatus resp code) = None"
| "response_Msg nil_dereference = None"

definition StatusCreated :: nat where
  "StatusCreated = 201"

text \<open>The calls made on the provisioner, in the order they are made.\<close>

datatype ('ip, 'uri, 'd) provisioner_call =
    Token_call string "string list"
  | Sign_call "('ip, 'uri, 'd) api_SignRequest"

text \<open>
  The provisioner (\<^verbatim>\<open>*ca.Provisioner\<close>) is an external collaborator: \<^verbatim>\<open>Token\<close> and
  \<^verbatim>\<open>Sign\<close> read and change a state \<open>'s\<close> (the CA, the network) and return an error
  or a value.
\<close>

record ('s, 'e, 'ip, 'uri, 'd, 'r) provisioner =
  Token :: "'s \<Rightarrow> string \<Rightarrow> string list \<Rightarrow> ('e + string) \<times> 's"
  Sign :: "'s \<Rightarrow> ('ip, 'uri, 'd) api_SignRequest \<Rightarrow> ('e + 'r) \<times> 's"

text \<open>
  The library functions the handler calls: \<^verbatim>\<open>json.NewDecoder(r.Body).Decode\<close>,
  \<^verbatim>\<open>(*x509.CertificateRequest).CheckSignature\<close>, \<^verbatim>\<open>net.IP.String\<close> and
  \<^verbatim>\<open>(*url.URL).String\<close>.
\<close>

record ('e, 'ip, 'uri, 'd) externals =
  json_Decode :: "string \<Rightarrow> 'e + ('ip, 'uri, 'd) SignRequest"
  CheckSignature :: "('ip, 'uri) CertificateRequest \<Rightarrow> 'e option"
  ip_String :: "'ip \<Rightarrow> string"
  uri_String :: "'uri \<Rightarrow> string"

section \<open>Operations\<close>

text \<open>\<^verbatim>\<open>func (s *SignRequest) Validate() error\<close>; \<open>None\<close> is the nil error.\<close>

definition Validate ::
  "('e, 'ip, 'uri, 'd) externals \<Rightarrow> ('ip, 'uri, 'd) SignRequest \<Rightarrow> 'e rendered_error option" where
  "Validate ext s =
     (case CsrPEM s of
        None \<Rightarrow> Some (errs_BadRequest ''missing csr'')
      | Some csr \<Rightarrow>
          (case CheckSignature ext csr of
             Some err \<Rightarrow> Some (errs_BadRequestErr err ''invalid csr'')
           | None \<Rightarrow> None))"

text \<open>
  The loop of \<^verbatim>\<open>generateSubject\<close>: \<open>Some s\<close> when it returns \<open>s\<close> from inside the
  loop, \<open>None\<close> when the range is exhausted.
\<close>

fun generateSubject_range :: "string list \<Rightarrow> string option" where
  "generateSubject_range [] = None"
| "generateSubject_range (s # rest) =
     (if s \<noteq> ''127.0.0.1'' \<and> s \<noteq> ''localhost'' then Some s
      else generateSubject_range rest)"

definition generateSubject :: "string list \<Rightarrow> string" where
  "generateSubject sans =
     (if length sans = 0 then ''127.0.0.1''
      else (case generateSubject_range sans of
              Some s \<Rightarrow> s
            | None \<Rightarrow> sans ! 0))"

text \<open>
  The two loops of the handler that append \<^verbatim>\<open>x.String()\<close> for each \<open>x\<close> of a
  range to \<open>sans\<close>.
\<close>

fun range_append :: "('a \<Rightarrow> string) \<Rightarrow> string list \<Rightarrow> 'a list \<Rightarrow> string list" where
  "range_append str sans [] = sans"
| "range_append str sans (x # xs) = range_append str (sans @ [str x]) xs"

text \<open>The SAN construction of the handler, statement by statement.\<close>

definition build_sans ::
  "('e, 'ip, 'uri, 'd) externals \<Rightarrow> ('ip, 'uri) CertificateRequest \<Rightarrow> string list" where
  "build_sans ext csr =
     (let sans = [] @ DNSNames csr;
          sans = sans @ EmailAddresses csr;
          sans = range_append (ip_String ext) sans (IPAddresses csr);
          sans = range_append (uri_String ext) sans (URIs csr)
      in sans)"

text \<open>
  \<^verbatim>\<open>subject := csr.Subject.CommonName; if subject == "" { subject = generateSubject(sans) }\<close>
\<close>

definition select_subject :: "('ip, 'uri) CertificateRequest \<Rightarrow> string list \<Rightarrow> string" where
  "select_subject csr sans =
     (let subject = CommonName csr
      in if subject = [] then generateSubject sans else subject)"

text \<open>
  The HTTP handler installed in \<^verbatim>\<open>main\<close>. It returns what was written to the
  response and the collaborators' state after the request. Log lines are left out.
\<close>

definition handler ::
  "('e, 'ip, 'uri, 'd) externals \<Rightarrow> ('s, 'e, 'ip, 'uri, 'd, 'r) provisioner \<Rightarrow> Request \<Rightarrow> 's
     \<Rightarrow> ('e, 'r) response \<times> 's" where
  "handler ext prov r st =
     (if Path r \<noteq> ''/sign'' then (http_NotFound, st)
      else
        (case json_Decode ext (Body r) of
           Inl err \<Rightarrow>
             (render_Error (errs_BadRequestErr err ''error reading request body''), st)
         | Inr request \<Rightarrow>
             (case Validate ext request of
                Some err \<Rightarrow> (render_Error err, st)
              | None \<Rightarrow>
                  (case CsrPEM request of
                     None \<Rightarrow> (nil_dereference, st)
                   | Some csr \<Rightarrow>
                       (let sans = build_sans ext csr;
                            subject = select_subject csr sans
                        in (case Token prov st subject sans of
                              (Inl err, st1) \<Rightarrow> (render_Error (Returned err), st1)
                            | (Inr token, st1) \<Rightarrow>
                                (case Sign prov st1
                                        \<lparr>api_CsrPEM = CsrPEM request, OTT = token,
                                         api_NotAfter = NotAfter request\<rparr> of
                                   (Inl err, st2) \<Rightarrow> (render_Error (Returned err), st2)
                                 | (Inr resp, st2) \<Rightarrow>
                                     (render_JSONStatus resp StatusCreated, st2))))))))"

text \<open>
  To observe the calls a handler run makes, a provisioner is wrapped so that every call
  is also appended to a log kept beside its state. The answers and the state of the
  wrapped provisioner are those of the provisioner itself.
\<close>

definition recording ::
  "('s, 'e, 'ip, 'uri, 'd, 'r) provisioner
     \<Rightarrow> ('s \<times> ('ip, 'uri, 'd) provisioner_call list, 'e, 'ip, 'uri, 'd, 'r) provisioner" where
  "recording prov =
     \<lparr>Token = (\<lambda>(st, log) subject sans.
         (case Token prov st subject sans of
            (res, st') \<Rightarrow> (res, (st', log @ [Token_call subject sans])))),
       Sign = (\<lambda>(st, log) sreq.
         (case Sign prov st sreq of
            (res, st') \<Rightarrow> (res, (st', log @ [Sign_call sreq]))))\<rparr>"

section \<open>A fake environment for concrete runs\<close>

text \<open>
  Errors are strings, an IP is a number standing for an address, a URI is its path, a
  validity is a number of hours, and the state counts the calls the fake CA has served.
\<close>

definition example_csr :: "string \<Rightarrow> string list \<Rightarrow> (nat, string) CertificateRequest" where
  "example_csr cn dns =
     \<lparr>CommonName = cn, DNSNames = dns, EmailAddresses = [], IPAddresses = [], URIs = []\<rparr>"

definition all_sans_csr :: "(nat, string) CertificateRequest" where
  "all_sans_csr =
     \<lparr>CommonName = [], DNSNames = [''a.org'', ''a.org''], EmailAddresses = [''x@a.org''],
      IPAddresses = [0, 1], URIs = [''a.org'']\<rparr>"

definition fake_ext :: "(string, nat, string, nat) externals" where
  "fake_ext =
     \<lparr>json_Decode = (\<lambda>body.
         if body = ''no-csr'' then Inr \<lparr>CsrPEM = None, NotAfter = 1\<rparr>
         else if body = ''forged'' then
           Inr \<lparr>CsrPEM = Some (example_csr ''forged'' []), NotAfter = 1\<rparr>
         else if body = ''good'' then
           Inr \<lparr>CsrPEM = Some (example_csr ''example.com'' [''example.com'', ''example.com'']),
                NotAfter = 1\<rparr>
         else if body = ''long'' then
           Inr \<lparr>CsrPEM = Some (example_csr [] [''localhost'', ''api.example.com'']),
                NotAfter = 48\<rparr>
         else if body = ''empty-san'' then
           Inr \<lparr>CsrPEM = Some (example_csr [] [[]]), NotAfter = 1\<rparr>
         else if body = ''all-sans'' then
           Inr \<lparr>CsrPEM = Some all_sans_csr, NotAfter = 1\<rparr>
         else if body = ''[]'' then Inl ''cannot unmarshal array''
         else Inl ''unexpected end of JSON input''),
       CheckSignature = (\<lambda>csr. if CommonName csr = ''forged''
                                then Some ''crypto: verification error'' else None),
       ip_String = (\<lambda>ip. if ip = 0 then ''10.0.0.1'' else ''::1''),
       uri_String = (\<lambda>u. ''spiffe://'' @ u)\<rparr>"

definition fake_prov :: "(nat, string, nat, string, nat, string) provisioner" where
  "fake_prov =
     \<lparr>Token = (\<lambda>st subject sans.
         if subject = [] then (Inl ''subject cannot be empty'', st)
         else (Inr (''ott-'' @ subject), Suc st)),
       Sign = (\<lambda>st sreq.
         if api_NotAfter sreq > 24 then (Inl ''requested duration is too long'', Suc st)
         else (Inr (''cert-'' @ OTT sreq), Suc st))\<rparr>"

definition post :: "string \<Rightarrow> string \<Rightarrow> Request" where
  "post path body =
     \<lparr>Method = ''POST'', Path = path,
      Header = [(''Content-Type'', ''application/json'')], Body = body\<rparr>"

section \<open>Auxiliary facts\<close>

lemma generateSubject_range_find:
  "generateSubject_range sans = find (\<lambda>s. s \<noteq> ''127.0.0.1'' \<and> s \<noteq> ''localhost'') sans"
  by (induction sans) simp_all

lemma generateSubject_range_mem: "generateSubject_range sans = Some s \<Longrightarrow> s \<in> set sans"
  by (induction sans) (auto split: if_splits)

lemma generateSubject_mem:
  "generateSubject sans = ''127.0.0.1'' \<and> sans = [] \<or> generateSubject sans \<in> set sans"
proof (cases sans)
  case Nil
  then show ?thesis by (simp add: generateSubject_def)
next
  case (Cons a list)
  then show ?thesis
    by (auto simp: generateSubject_def split: option.splits dest: generateSubject_range_mem)
qed

lemma find_None_hd:
  "sans \<noteq> [] \<Longrightarrow> find (\<lambda>s. s \<noteq> ''127.0.0.1'' \<and> s \<noteq> ''localhost'') sans = None
     \<Longrightarrow> hd sans = ''127.0.0.1'' \<or> hd sans = ''localhost''"
  by (cases sans) (auto split: if_splits)

text \<open>
  The subject is empty exactly when the common name is empty and the first SAN entry
  other than "127.0.0.1" and "localhost" is the empty string.
\<close>

lemma select_subject_empty_iff:
  "select_subject csr sans = [] \<longleftrightarrow>
     CommonName csr = []
     \<and> find (\<lambda>s. s \<noteq> ''127.0.0.1'' \<and> s \<noteq> ''localhost'') sans = Some []"
proof (cases "CommonName csr = []")
  case False
  then show ?thesis by (simp add: select_subject_def)
next
  case True
  show ?thesis
  proof (cases "find (\<lambda>s. s \<noteq> ''127.0.0.1'' \<and> s \<noteq> ''localhost'') sans")
    case None
    then show ?thesis
      using True find_None_hd [of sans]
      by (cases sans)
         (auto simp: select_subject_def generateSubject_def generateSubject_range_find)
  next
    case (Some s)
    then show ?thesis
      using True
      by (cases sans)
         (auto simp: select_subject_def generateSubject_def generateSubject_range_find)
  qed
qed

lemma range_append_map: "range_append str sans xs = sans @ map str xs"
  by (induction xs arbitrary: sans) simp_all

lemma build_sans_eq:
  "build_sans ext csr =
     DNSNames csr @ EmailAddresses csr @ map (ip_String ext) (IPAddresses csr)
       @ map (uri_String ext) (URIs csr)"
  by (simp add: build_sans_def range_append_map)

text \<open>Once validation has passed, the run is the two collaborator calls and their log.\<close>

lemma handler_valid:
  assumes "Path r = ''/sign''"
    and "json_Decode ext (Body r) = Inr request"
    and "CsrPEM request = Some csr"
    and "CheckSignature ext csr = None"
  shows "handler ext (recording prov) r (st, log) =
     (let sans = build_sans ext csr;
          subject = select_subject csr sans
      in (case Token prov st subject sans of
            (Inl err, st1) \<Rightarrow>
              (render_Error (Returned err), st1, log @ [Token_call subject sans])
          | (Inr token, st1) \<Rightarrow>
              (let sreq = \<lparr>api_CsrPEM = Some csr, OTT = token,
                           api_NotAfter = NotAfter request\<rparr>
               in (case Sign prov st1 sreq of
                     (Inl err, st2) \<Rightarrow>
                       (render_Error (Returned err), st2,
                        log @ [Token_call subject sans, Sign_call sreq])
                   | (Inr resp, st2) \<Rightarrow>
                       (render_JSONStatus resp StatusCreated, st2,
                        log @ [Token_call subject sans, Sign_call sreq])))))"
  using assms
  by (simp add: handler_def Validate_def recording_def Let_def split: prod.splits sum.splits)

lemma handler_JSONStatus_code:
  "fst (handler ext prov r st) = render_JSONStatus resp code \<Longrightarrow> code = StatusCreated"
  by (auto simp: handler_def Let_def split: if_splits sum.splits option.splits prod.splits)

text \<open>The nil dereference after a passed validation cannot happen.\<close>

lemma handler_no_nil_dereference: "fst (handler ext prov r st) \<noteq> nil_dereference"
  by (auto simp: handler_def Validate_def Let_def
           split: if_splits sum.splits option.splits prod.splits)

text \<open>Recording the calls changes neither the response nor the collaborators' state.\<close>

lemma recording_transparent:
  "fst (handler ext (recording prov) r (st, log)) = fst (handler ext prov r st)
   \<and> fst (snd (handler ext (recording prov) r (st, log))) = snd (handler ext prov r st)"
  by (auto simp: handler_def recording_def Let_def
           split: if_splits sum.splits option.splits prod.splits)

text \<open>The fake environment, equation by equation.\<close>

lemma fake_decode_simps:
  "json_Decode fake_ext ''no-csr'' = Inr \<lparr>CsrPEM = None, NotAfter = 1\<rparr>"
  "json_Decode fake_ext ''forged'' =
     Inr \<lparr>CsrPEM = Some (example_csr ''forged'' []), NotAfter = 1\<rparr>"
  "json_Decode fake_ext ''good'' =
     Inr \<lparr>CsrPEM = Some (example_csr ''example.com'' [''example.com'', ''example.com'']),
          NotAfter = 1\<rparr>"
  "json_Decode fake_ext ''long'' =
     Inr \<lparr>CsrPEM = Some (example_csr [] [''localhost'', ''api.example.com'']), NotAfter = 48\<rparr>"
  "json_Decode fake_ext ''empty-san'' =
     Inr \<lparr>CsrPEM = Some (example_csr [] [[]]), NotAfter = 1\<rparr>"
  "json_Decode fake_ext ''all-sans'' = Inr \<lparr>CsrPEM = Some all_sans_csr, NotAfter = 1\<rparr>"
  "json_Decode fake_ext ''{'' = Inl ''unexpected end of JSON input''"
  "json_Decode fake_ext ''[]'' = Inl ''cannot unmarshal array''"
  by (simp_all add: fake_ext_def)

lemma post_simps:
  "Path (post path body) = path" "Body (post path body) = body"
  by (simp_all add: post_def)

lemma fake_ext_simps:
  "CheckSignature fake_ext csr =
     (if CommonName csr = ''forged'' then Some ''crypto: verification error'' else None)"
  "ip_String fake_ext ip = (if ip = 0 then ''10.0.0.1'' else ''::1'')"
  "uri_String fake_ext u = ''spiffe://'' @ u"
  by (simp_all add: fake_ext_def)

lemma fake_prov_simps:
  "Token fake_prov st subject sans =
     (if subject = [] then (Inl ''subject cannot be empty'', st)
      else (Inr (''ott-'' @ subject), Suc st))"
  "Sign fake_prov st sreq =
     (if api_NotAfter sreq > 24 then (Inl ''requested duration is too long'', Suc st)
      else (Inr (''cert-'' @ OTT sreq), Suc st))"
  by (simp_all add: fake_prov_def)

lemma good_sans:
  "build_sans fake_ext (example_csr ''example.com'' [''example.com'', ''example.com''])
     = [''example.com'', ''example.com'']"
  by (simp add: build_sans_eq example_csr_def)

lemma good_subject:
  "select_subject (example_csr ''example.com'' [''example.com'', ''example.com''])
     [''example.com'', ''example.com''] = ''example.com''"
  by (simp add: select_subject_def example_csr_def)

lemma long_sans:
  "build_sans fake_ext (example_csr [] [''localhost'', ''api.example.com''])
     = [''localhost'', ''api.example.com'']"
  by (simp add: build_sans_eq example_csr_def)

lemma long_subject:
  "select_subject (example_csr [] [''localhost'', ''api.example.com''])
     [''localhost'', ''api.example.com''] = ''api.example.com''"
  by (simp add: select_subject_def generateSubject_def example_csr_def)

section \<open>Subject derivation\<close>

text \<open>
  C1. The derived subject is the CSR's common name when that is non-empty; with an empty
  common name and no SAN it is the literal "127.0.0.1"; with an empty common name and
  some SAN it is the first SAN entry that is neither "127.0.0.1" nor "localhost", and
  the first SAN entry when no entry qualifies.
\<close>

theorem select_subject_spec:
  "select_subject csr sans =
     (if CommonName csr \<noteq> [] then CommonName csr
      else if sans = [] then ''127.0.0.1''
      else (case find (\<lambda>s. s \<noteq> ''127.0.0.1'' \<and> s \<noteq> ''localhost'') sans of
              Some s \<Rightarrow> s
            | None \<Rightarrow> hd sans))"
  by (cases sans)
     (auto simp: select_subject_def generateSubject_def generateSubject_range_find
           split: option.splits)

theorem select_subject_spec_witness:
  "select_subject (example_csr [] []) [''localhost'', ''127.0.0.1'', ''api.example.com'']
     = ''api.example.com''
   \<and> select_subject (example_csr [] []) [''localhost''] = ''localhost''
   \<and> select_subject (example_csr [] []) [] = ''127.0.0.1''
   \<and> select_subject (example_csr ''example.com'' []) [''localhost'', ''other.org'']
     = ''example.com''"
  using select_subject_spec [of "example_csr [] []"
          "[''localhost'', ''127.0.0.1'', ''api.example.com'']"]
        select_subject_spec [of "example_csr [] []" "[''localhost'']"]
        select_subject_spec [of "example_csr [] []" "[]"]
        select_subject_spec [of "example_csr ''example.com'' []"
          "[''localhost'', ''other.org'']"]
  by (simp add: example_csr_def)

text \<open>
  C7. The derived subject of a request that passes validation is never empty. The code
  misses it for a CSR with an empty common name whose only SAN is the empty string: the
  request is valid, the derived subject is empty, and whatever the provisioner is, the
  handler's first call on it asks for a token for the empty subject.
\<close>

theorem handler_empty_subject:
  "Validate fake_ext \<lparr>CsrPEM = Some (example_csr [] [[]]), NotAfter = 1\<rparr> = None
   \<and> select_subject (example_csr [] [[]]) (build_sans fake_ext (example_csr [] [[]])) = []
   \<and> take 1 (snd (snd (handler fake_ext (recording prov) (post ''/sign'' ''empty-san'')
                          (st, []))))
       = [Token_call [] [[]]]"
proof (intro conjI)
  show "Validate fake_ext \<lparr>CsrPEM = Some (example_csr [] [[]]), NotAfter = 1\<rparr> = None"
    by (simp add: Validate_def fake_ext_simps example_csr_def)
  show s: "select_subject (example_csr [] [[]]) (build_sans fake_ext (example_csr [] [[]]))
             = []"
    by (simp add: build_sans_eq select_subject_def generateSubject_def example_csr_def)
  have b: "build_sans fake_ext (example_csr [] [[]]) = [[]]"
    by (simp add: build_sans_eq example_csr_def)
  have p: "Path (post ''/sign'' ''empty-san'') = ''/sign''"
    by (simp add: post_simps)
  have d: "json_Decode fake_ext (Body (post ''/sign'' ''empty-san'')) =
             Inr \<lparr>CsrPEM = Some (example_csr [] [[]]), NotAfter = 1\<rparr>"
    by (simp add: post_simps fake_decode_simps)
  have q: "CsrPEM \<lparr>CsrPEM = Some (example_csr [] [[]]), NotAfter = 1::nat\<rparr>
             = Some (example_csr [] [[]])"
    by simp
  have c: "CheckSignature fake_ext (example_csr [] [[]]) = None"
    by (simp add: fake_ext_simps example_csr_def)
  show "take 1 (snd (snd (handler fake_ext (recording prov) (post ''/sign'' ''empty-san'')
                            (st, []))))
        = [Token_call [] [[]]]"
    using s
    by (simp add: handler_valid [OF p d q c] b Let_def split: prod.splits sum.splits)
qed

section \<open>Routing\<close>

text \<open>
  C10. Routing reads the URL path only. A request whose path is not "/sign" is answered
  with NotFound and reaches no collaborator, whatever its method and headers. A request
  whose path is "/sign" goes through the signing pipeline, whatever its method and
  headers: the outcome is the one the body alone determines, through decoding,
  validation, the Token call and the Sign call.
\<close>

theorem handler_routing:
  "(Path r \<noteq> ''/sign'' \<longrightarrow>
      handler ext (recording prov) (r\<lparr>Method := m, Header := h\<rparr>) (st, [])
        = (http_NotFound, st, []))
   \<and> (Path r = ''/sign'' \<longrightarrow>
      handler ext (recording prov) (r\<lparr>Method := m, Header := h\<rparr>) (st, []) =
        (case json_Decode ext (Body r) of
           Inl err \<Rightarrow>
             (render_Error (errs_BadRequestErr err ''error reading request body''), st, [])
         | Inr request \<Rightarrow>
             (case CsrPEM request of
                None \<Rightarrow> (render_Error (errs_BadRequest ''missing csr''), st, [])
              | Some csr \<Rightarrow>
                  (case CheckSignature ext csr of
                     Some err \<Rightarrow>
                       (render_Error (errs_BadRequestErr err ''invalid csr''), st, [])
                   | None \<Rightarrow>
                       (case Token prov st (select_subject csr (build_sans ext csr))
                               (build_sans ext csr) of
                          (Inl err, st1) \<Rightarrow>
                            (render_Error (Returned err), st1,
                             [Token_call (select_subject csr (build_sans ext csr))
                                (build_sans ext csr)])
                        | (Inr token, st1) \<Rightarrow>
                            (case Sign prov st1
                                    \<lparr>api_CsrPEM = Some csr, OTT = token,
                                     api_NotAfter = NotAfter request\<rparr> of
                               (Inl err, st2) \<Rightarrow>
                                 (render_Error (Returned err), st2,
                                  [Token_call (select_subject csr (build_sans ext csr))
                                     (build_sans ext csr),
                                   Sign_call \<lparr>api_CsrPEM = Some csr, OTT = token,
                                              api_NotAfter = NotAfter request\<rparr>])
                             | (Inr resp, st2) \<Rightarrow>
                                 (render_JSONStatus resp 201, st2,
                                  [Token_call (select_subject csr (build_sans ext csr))
                                     (build_sans ext csr),
                                   Sign_call \<lparr>api_CsrPEM = Some csr, OTT = token,
                                              api_NotAfter = NotAfter request\<rparr>])))))))"
  by (simp add: handler_def Validate_def recording_def StatusCreated_def Let_def
           split: sum.splits option.splits prod.splits)

theorem handler_routing_witness:
  "handler fake_ext (recording fake_prov)
       ((post ''/sign/'' ''good'')\<lparr>Method := ''GET'', Header := []\<rparr>) (0, [])
     = (http_NotFound, 0, [])
   \<and> handler fake_ext (recording fake_prov)
        ((post ''/sign'' ''good'')\<lparr>Method := ''GET'', Header := []\<rparr>) (0, [])
     = (render_JSONStatus ''cert-ott-example.com'' 201, 2,
        [Token_call ''example.com'' [''example.com'', ''example.com''],
         Sign_call \<lparr>api_CsrPEM = Some (example_csr ''example.com''
                                          [''example.com'', ''example.com'']),
                    OTT = ''ott-example.com'', api_NotAfter = 1\<rparr>])"
proof
  have "Path (post ''/sign/'' ''good'') \<noteq> ''/sign''"
    by (simp add: post_simps)
  then show "handler fake_ext (recording fake_prov)
       ((post ''/sign/'' ''good'')\<lparr>Method := ''GET'', Header := []\<rparr>) (0, [])
     = (http_NotFound, 0, [])"
    using handler_routing [where r = "post ''/sign/'' ''good''" and ext = fake_ext
            and prov = fake_prov and st = 0 and m = "''GET''" and h = "[]"]
    by blast
next
  let ?csr = "example_csr ''example.com'' [''example.com'', ''example.com'']"
  have p: "Path (post ''/sign'' ''good'') = ''/sign''"
    by (simp add: post_simps)
  have d: "json_Decode fake_ext (Body (post ''/sign'' ''good'')) =
             Inr \<lparr>CsrPEM = Some ?csr, NotAfter = 1\<rparr>"
    by (simp add: post_simps fake_decode_simps)
  have c: "CheckSignature fake_ext ?csr = None"
    by (simp add: fake_ext_simps example_csr_def)
  show "handler fake_ext (recording fake_prov)
        ((post ''/sign'' ''good'')\<lparr>Method := ''GET'', Header := []\<rparr>) (0, [])
     = (render_JSONStatus ''cert-ott-example.com'' 201, 2,
        [Token_call ''example.com'' [''example.com'', ''example.com''],
         Sign_call \<lparr>api_CsrPEM = Some ?csr, OTT = ''ott-example.com'',
                    api_NotAfter = 1\<rparr>])"
    using handler_routing [where r = "post ''/sign'' ''good''" and ext = fake_ext
            and prov = fake_prov and st = 0 and m = "''GET''" and h = "[]",
            THEN conjunct2, THEN mp, OF p]
    by (simp add: d c good_sans good_subject fake_prov_simps)
qed

text \<open>
  C6. A GET request for "/healthz" is answered by the handler like every path other than
  "/sign": with NotFound, not with status 200 and the body "ok".
\<close>

theorem handler_healthz:
  "handler ext (recording prov)
     \<lparr>Method = ''GET'', Path = ''/healthz'', Header = h, Body = b\<rparr> (st, [])
   = (http_NotFound, st, [])"
  by (simp add: handler_def)

section \<open>The signing pipeline\<close>

text \<open>
  C8, as stated: on a body that does not decode, the BadRequest message names the parse
  error. It fails: two bodies with different decoder errors get the same message, the
  fixed text "error reading request body".
\<close>

theorem decode_message_counterexample:
  "json_Decode fake_ext ''{'' = Inl ''unexpected end of JSON input''
   \<and> json_Decode fake_ext ''[]'' = Inl ''cannot unmarshal array''
   \<and> response_Msg (fst (handler fake_ext (recording fake_prov) (post ''/sign'' ''{'')
                            (0, [])))
       = Some ''error reading request body''
   \<and> response_Msg (fst (handler fake_ext (recording fake_prov) (post ''/sign'' ''[]'')
                            (0, [])))
       = Some ''error reading request body''"
  by (simp add: handler_def fake_decode_simps post_simps)

text \<open>
  C8, amended: when the body does not decode, the handler answers with the BadRequest
  error that wraps the decoder's error as its cause and carries the fixed message
  "error reading request body"; the signature check, the SAN rendering and the
  provisioner play no part in the answer and no call is made.
\<close>

theorem handler_decode_failure:
  assumes "Path r = ''/sign''"
    and "json_Decode ext (Body r) = Inl err"
  shows "handler (ext\<lparr>CheckSignature := chk, ip_String := ips, uri_String := us\<rparr>)
           (recording prov) r (st, [])
         = (render_Error (errs_BadRequestErr err ''error reading request body''), st, [])
       \<and> response_Msg (fst (handler
            (ext\<lparr>CheckSignature := chk, ip_String := ips, uri_String := us\<rparr>)
            (recording prov) r (st, [])))
         = Some ''error reading request body''"
  using assms by (simp add: handler_def)

theorem handler_decode_failure_witness:
  "handler (fake_ext\<lparr>CheckSignature := (\<lambda>csr. Some ''never asked''),
                      ip_String := (\<lambda>ip. []), uri_String := (\<lambda>u. [])\<rparr>)
      (recording fake_prov) (post ''/sign'' ''{'') (0, [])
   = (render_Error (errs_BadRequestErr ''unexpected end of JSON input''
                      ''error reading request body''), 0, [])"
proof -
  have p: "Path (post ''/sign'' ''{'') = ''/sign''"
    by (simp add: post_simps)
  have d: "json_Decode fake_ext (Body (post ''/sign'' ''{'')) =
             Inl ''unexpected end of JSON input''"
    by (simp add: post_simps fake_decode_simps)
  show ?thesis
    by (rule handler_decode_failure [OF p d, THEN conjunct1])
qed

text \<open>
  C4. A body that decodes to a request without a CSR, and a request whose CSR fails its
  signature check, are answered with a BadRequest error, and no call reaches the
  provisioner.
\<close>

theorem handler_rejects_invalid:
  assumes "Path r = ''/sign''"
    and "json_Decode ext (Body r) = Inr request"
  shows "(CsrPEM request = None \<longrightarrow>
            handler ext (recording prov) r (st, [])
              = (render_Error (errs_BadRequest ''missing csr''), st, []))
       \<and> (CsrPEM request = Some csr \<and> CheckSignature ext csr = Some err \<longrightarrow>
            handler ext (recording prov) r (st, [])
              = (render_Error (errs_BadRequestErr err ''invalid csr''), st, []))"
  using assms by (simp add: handler_def Validate_def)

theorem handler_rejects_invalid_witness:
  "handler fake_ext (recording fake_prov) (post ''/sign'' ''no-csr'') (0, []) =
     (render_Error (errs_BadRequest ''missing csr''), 0, [])
   \<and> handler fake_ext (recording fake_prov) (post ''/sign'' ''forged'') (0, []) =
     (render_Error (errs_BadRequestErr ''crypto: verification error'' ''invalid csr''), 0, [])"
proof
  have p: "Path (post ''/sign'' ''no-csr'') = ''/sign''"
    by (simp add: post_simps)
  have d: "json_Decode fake_ext (Body (post ''/sign'' ''no-csr'')) =
             Inr \<lparr>CsrPEM = None, NotAfter = 1\<rparr>"
    by (simp add: post_simps fake_decode_simps)
  show "handler fake_ext (recording fake_prov) (post ''/sign'' ''no-csr'') (0, []) =
     (render_Error (errs_BadRequest ''missing csr''), 0, [])"
    using handler_rejects_invalid [OF p d, where prov = fake_prov and st = 0] by simp
next
  have p: "Path (post ''/sign'' ''forged'') = ''/sign''"
    by (simp add: post_simps)
  have d: "json_Decode fake_ext (Body (post ''/sign'' ''forged'')) =
             Inr \<lparr>CsrPEM = Some (example_csr ''forged'' []), NotAfter = 1\<rparr>"
    by (simp add: post_simps fake_decode_simps)
  have c: "CheckSignature fake_ext (example_csr ''forged'' []) =
             Some ''crypto: verification error''"
    by (simp add: fake_ext_simps example_csr_def)
  show "handler fake_ext (recording fake_prov) (post ''/sign'' ''forged'') (0, []) =
     (render_Error (errs_BadRequestErr ''crypto: verification error'' ''invalid csr''), 0, [])"
    using handler_rejects_invalid [OF p d, where csr = "example_csr ''forged'' []"
            and err = "''crypto: verification error''" and prov = fake_prov and st = 0] c
    by simp
qed

text \<open>
  C3. The SAN sequence handed to subject selection and to the token-mint call is the
  CSR's DNS names, then its email addresses, then its IP addresses as strings, then its
  URIs as strings, in that order and with duplicates kept.
\<close>

theorem handler_sans_order:
  assumes "Path r = ''/sign''"
    and "json_Decode ext (Body r) = Inr request"
    and "CsrPEM request = Some csr"
    and "CheckSignature ext csr = None"
  shows "let sans = DNSNames csr @ EmailAddresses csr
                     @ map (ip_String ext) (IPAddresses csr)
                     @ map (uri_String ext) (URIs csr)
         in \<exists>rest. snd (snd (handler ext (recording prov) r (st, []))) =
              Token_call (if CommonName csr = [] then generateSubject sans
                          else CommonName csr) sans # rest"
  by (simp add: handler_valid [OF assms] build_sans_eq select_subject_def Let_def
           split: prod.splits sum.splits)

theorem handler_sans_order_witness:
  "\<exists>rest. snd (snd (handler fake_ext (recording fake_prov) (post ''/sign'' ''all-sans'')
                      (0, []))) =
     Token_call ''a.org''
       [''a.org'', ''a.org'', ''x@a.org'', ''10.0.0.1'', ''::1'', ''spiffe://a.org''] # rest"
proof -
  have p: "Path (post ''/sign'' ''all-sans'') = ''/sign''"
    by (simp add: post_simps)
  have d: "json_Decode fake_ext (Body (post ''/sign'' ''all-sans'')) =
             Inr \<lparr>CsrPEM = Some all_sans_csr, NotAfter = 1\<rparr>"
    by (simp add: post_simps fake_decode_simps)
  have q: "CsrPEM \<lparr>CsrPEM = Some all_sans_csr, NotAfter = 1::nat\<rparr> = Some all_sans_csr"
    by simp
  have c: "CheckSignature fake_ext all_sans_csr = None"
    by (simp add: fake_ext_simps all_sans_csr_def)
  have g: "generateSubject
             [''a.org'', ''a.org'', ''x@a.org'', ''10.0.0.1'', ''::1'', ''spiffe://a.org'']
           = ''a.org''"
    by (simp add: generateSubject_def)
  show ?thesis
    using handler_sans_order [OF p d q c, where prov = fake_prov and st = 0]
    by (simp add: Let_def all_sans_csr_def fake_ext_simps g)
qed

text \<open>
  C2. When the body decodes to a request whose CSR verifies and both the token-mint and
  the sign call succeed, the handler calls Token once, then Sign once, and renders the
  sign response as JSON with status 201; whatever the request, a JSON response of the
  handler has status 201.
\<close>

theorem handler_success:
  "(Path r = ''/sign'' \<and> json_Decode ext (Body r) = Inr request
      \<and> CsrPEM request = Some csr \<and> CheckSignature ext csr = None
      \<and> Token prov st (select_subject csr (build_sans ext csr)) (build_sans ext csr)
          = (Inr token, st1)
      \<and> Sign prov st1 \<lparr>api_CsrPEM = Some csr, OTT = token, api_NotAfter = NotAfter request\<rparr>
          = (Inr resp, st2)
    \<longrightarrow> handler ext (recording prov) r (st, []) =
          (render_JSONStatus resp 201, st2,
           [Token_call (select_subject csr (build_sans ext csr)) (build_sans ext csr),
            Sign_call \<lparr>api_CsrPEM = Some csr, OTT = token,
                       api_NotAfter = NotAfter request\<rparr>]))
   \<and> (\<forall>resp' code. fst (handler ext (recording prov) r (st, [])) = render_JSONStatus resp' code
          \<longrightarrow> code = 201)"
proof (intro conjI impI allI)
  assume h: "Path r = ''/sign'' \<and> json_Decode ext (Body r) = Inr request
      \<and> CsrPEM request = Some csr \<and> CheckSignature ext csr = None
      \<and> Token prov st (select_subject csr (build_sans ext csr)) (build_sans ext csr)
          = (Inr token, st1)
      \<and> Sign prov st1 \<lparr>api_CsrPEM = Some csr, OTT = token, api_NotAfter = NotAfter request\<rparr>
          = (Inr resp, st2)"
  then have "handler ext (recording prov) r (st, []) =
          (render_JSONStatus resp StatusCreated, st2,
           [Token_call (select_subject csr (build_sans ext csr)) (build_sans ext csr),
            Sign_call \<lparr>api_CsrPEM = Some csr, OTT = token,
                       api_NotAfter = NotAfter request\<rparr>])"
    by (simp add: handler_valid [of r ext request csr] Let_def)
  then show "handler ext (recording prov) r (st, []) =
          (render_JSONStatus resp 201, st2,
           [Token_call (select_subject csr (build_sans ext csr)) (build_sans ext csr),
            Sign_call \<lparr>api_CsrPEM = Some csr, OTT = token,
                       api_NotAfter = NotAfter request\<rparr>])"
    by (simp add: StatusCreated_def)
next
  fix resp' code
  assume "fst (handler ext (recording prov) r (st, [])) = render_JSONStatus resp' code"
  then show "code = 201"
    using handler_JSONStatus_code [of ext "recording prov" r "(st, [])" resp' code]
    by (simp add: StatusCreated_def)
qed

theorem handler_success_witness:
  "handler fake_ext (recording fake_prov) (post ''/sign'' ''good'') (0, []) =
     (render_JSONStatus ''cert-ott-example.com'' 201, 2,
      [Token_call ''example.com'' [''example.com'', ''example.com''],
       Sign_call \<lparr>api_CsrPEM = Some (example_csr ''example.com''
                                        [''example.com'', ''example.com'']),
                  OTT = ''ott-example.com'', api_NotAfter = 1\<rparr>])"
proof -
  let ?csr = "example_csr ''example.com'' [''example.com'', ''example.com'']"
  let ?request = "\<lparr>CsrPEM = Some ?csr, NotAfter = 1::nat\<rparr>"
  have p: "Path (post ''/sign'' ''good'') = ''/sign''"
    by (simp add: post_simps)
  have d: "json_Decode fake_ext (Body (post ''/sign'' ''good'')) = Inr ?request"
    by (simp add: post_simps fake_decode_simps)
  have q: "CsrPEM ?request = Some ?csr"
    by simp
  have c: "CheckSignature fake_ext ?csr = None"
    by (simp add: fake_ext_simps example_csr_def)
  have t: "Token fake_prov 0 (select_subject ?csr (build_sans fake_ext ?csr))
             (build_sans fake_ext ?csr) = (Inr ''ott-example.com'', 1)"
    by (simp add: good_sans good_subject fake_prov_simps)
  have s: "Sign fake_prov 1 \<lparr>api_CsrPEM = Some ?csr, OTT = ''ott-example.com'',
                              api_NotAfter = NotAfter ?request\<rparr>
             = (Inr ''cert-ott-example.com'', 2)"
    by (simp add: fake_prov_simps)
  have "handler fake_ext (recording fake_prov) (post ''/sign'' ''good'') (0, []) =
          (render_JSONStatus ''cert-ott-example.com'' 201, 2,
           [Token_call (select_subject ?csr (build_sans fake_ext ?csr))
              (build_sans fake_ext ?csr),
            Sign_call \<lparr>api_CsrPEM = Some ?csr, OTT = ''ott-example.com'',
                       api_NotAfter = NotAfter ?request\<rparr>])"
    by (rule handler_success [of "post ''/sign'' ''good''" fake_ext ?request ?csr
            fake_prov 0 "''ott-example.com''" 1 "''cert-ott-example.com''" 2,
            THEN conjunct1, THEN mp])
       (intro conjI p d q c t s)
  then show ?thesis
    by (simp add: good_sans good_subject)
qed

text \<open>
  C5. When the token-mint call succeeds and the sign call fails, the handler renders the
  error exactly as the sign call returned it, after one Token call and one Sign call
  and no further call.
\<close>

theorem handler_sign_failure:
  assumes "Path r = ''/sign''"
    and "json_Decode ext (Body r) = Inr request"
    and "CsrPEM request = Some csr"
    and "CheckSignature ext csr = None"
    and "Token prov st (select_subject csr (build_sans ext csr)) (build_sans ext csr)
           = (Inr token, st1)"
    and "Sign prov st1 \<lparr>api_CsrPEM = Some csr, OTT = token, api_NotAfter = NotAfter request\<rparr>
           = (Inl err, st2)"
  shows "handler ext (recording prov) r (st, []) =
           (render_Error (Returned err), st2,
            [Token_call (select_subject csr (build_sans ext csr)) (build_sans ext csr),
             Sign_call \<lparr>api_CsrPEM = Some csr, OTT = token,
                        api_NotAfter = NotAfter request\<rparr>])"
  using assms(5,6)
  by (simp add: handler_valid [OF assms(1-4)] Let_def)

theorem handler_sign_failure_witness:
  "handler fake_ext (recording fake_prov) (post ''/sign'' ''long'') (0, []) =
     (render_Error (Returned ''requested duration is too long''), 2,
      [Token_call ''api.example.com'' [''localhost'', ''api.example.com''],
       Sign_call \<lparr>api_CsrPEM = Some (example_csr [] [''localhost'', ''api.example.com'']),
                  OTT = ''ott-api.example.com'', api_NotAfter = 48\<rparr>])"
proof -
  let ?csr = "example_csr [] [''localhost'', ''api.example.com'']"
  let ?request = "\<lparr>CsrPEM = Some ?csr, NotAfter = 48::nat\<rparr>"
  have p: "Path (post ''/sign'' ''long'') = ''/sign''"
    by (simp add: post_simps)
  have d: "json_Decode fake_ext (Body (post ''/sign'' ''long'')) = Inr ?request"
    by (simp add: post_simps fake_decode_simps)
  have q: "CsrPEM ?request = Some ?csr"
    by simp
  have c: "CheckSignature fake_ext ?csr = None"
    by (simp add: fake_ext_simps example_csr_def)
  have t: "Token fake_prov 0 (select_subject ?csr (build_sans fake_ext ?csr))
             (build_sans fake_ext ?csr) = (Inr ''ott-api.example.com'', 1)"
    by (simp add: long_sans long_subject fake_prov_simps)
  have s: "Sign fake_prov 1 \<lparr>api_CsrPEM = Some ?csr, OTT = ''ott-api.example.com'',
                              api_NotAfter = NotAfter ?request\<rparr>
             = (Inl ''requested duration is too long'', 2)"
    by (simp add: fake_prov_simps)
  show ?thesis
    using handler_sign_failure [OF p d q c t s]
    by (simp add: long_sans long_subject)
qed

end
